theory Spec2Isabelle
  imports Main
begin

section \<open>The COLREGs quiz application (src/index.tsx)\<close>

text \<open>
  The component \<open>App\<close> keeps its whole state in seven \<open>useState\<close> cells and changes
  it only through a handful of handlers. The cells become one record, each handler a
  function from the record to the updated record, and the asynchronous collaborators
  (the generation service, the interval timer, the person at the keyboard) become
  events that fire the handlers.
\<close>

subsection \<open>Data\<close>

record QuizQuestion =
  question :: string
  options :: "string list"
  correctAnswerIndex :: int
  explanation :: string

record UserProfile =
  name :: string
  rank :: string
  vessel :: string

datatype step = Profile | Loading | Quiz | Results

text \<open>
  \<open>answers\<close> holds JavaScript numbers, compared with \<open>correctAnswerIndex\<close> by
  \<open>===\<close>, so both are integers here. \<open>error\<close> is \<open>string | null\<close>.
\<close>

record app_state =
  step :: step
  profile :: UserProfile
  questions :: "QuizQuestion list"
  currentQuestionIndex :: nat
  answers :: "int list"
  error :: "string option"
  timeLeft :: int

text \<open>The initial values of the seven \<open>useState\<close> calls (lines 35 to 41).\<close>

definition initial_state :: app_state where
  "initial_state =
     \<lparr>step = Profile, profile = \<lparr>name = [], rank = [], vessel = []\<rparr>, questions = [],
      currentQuestionIndex = 0, answers = [], error = None, timeLeft = 600\<rparr>"

subsection \<open>JavaScript reads\<close>

text \<open>
  Reading an array past its end gives \<open>undefined\<close> in JavaScript; \<open>None\<close> stands
  for it. \<open>js_index_int\<close> is the same read with a number that may be negative or too
  large, as \<open>q.options[q.correctAnswerIndex]\<close> is. A template literal prints
  \<open>undefined\<close> as the word.
\<close>

definition js_index :: "'a list \<Rightarrow> nat \<Rightarrow> 'a option" where
  "js_index xs i = (if i < length xs then Some (xs ! i) else None)"

definition js_index_int :: "'a list \<Rightarrow> int \<Rightarrow> 'a option" where
  "js_index_int xs k = (if 0 \<le> k \<and> k < int (length xs) then Some (xs ! nat k) else None)"

definition js_str :: "string option \<Rightarrow> string" where
  "js_str v = (case v of None \<Rightarrow> ''undefined'' | Some t \<Rightarrow> t)"

definition digit_char :: "nat \<Rightarrow> char" where
  "digit_char d = ''0123456789'' ! d"

function show_nat :: "nat \<Rightarrow> string" where
  "show_nat n = (if n < 10 then [digit_char n] else show_nat (n div 10) @ [digit_char (n mod 10)])"
  by pat_completeness auto
termination
  by (relation "measure id") auto

declare show_nat.simps [simp del]

subsection \<open>The handlers\<close>

text \<open>
  The timer effect (lines 48 to 59) runs after every change of \<open>step\<close> or \<open>timeLeft\<close>.
  In its first branch it arms an interval whose callback is \<open>prev - 1\<close>; the change
  of \<open>timeLeft\<close> then clears the interval and runs the effect again, so one firing
  is one decrement. \<open>timerEffect\<close> is one run of the effect together with the firing
  of the interval it armed.
\<close>

definition timerEffect :: "app_state \<Rightarrow> app_state" where
  "timerEffect s =
     (if step s = Quiz \<and> timeLeft s > 0 then s\<lparr>timeLeft := timeLeft s - 1\<rparr>
      else if step s = Quiz \<and> timeLeft s = 0 then s\<lparr>step := Results\<rparr>
      else s)"

text \<open>
  \<open>handleProfileSubmit\<close> (lines 61 to 70) up to its \<open>await\<close>. An empty string is
  the only falsy string. The awaited \<open>generateQuiz\<close> continues from the state with
  \<open>step = Loading\<close> once the service has answered.
\<close>

definition handleProfileSubmit :: "app_state \<Rightarrow> app_state" where
  "handleProfileSubmit s =
     (if name (profile s) = [] \<or> rank (profile s) = [] \<or> vessel (profile s) = []
      then s\<lparr>error := Some ''Please fill in all fields.''\<rparr>
      else s\<lparr>error := None, step := Loading\<rparr>)"

text \<open>
  What the awaited call and \<open>JSON.parse\<close> can produce (lines 80 to 114): the call
  rejects, \<open>response.text\<close> is missing or empty, the text does not parse, or it parses.
  The response schema asks for an array of objects with the four fields, so a parsed
  value is a list of questions; nothing constrains its length, the number of options
  or the range of the index.
\<close>

datatype gen_response = ServiceError | NoText | BadJson | Parsed "QuizQuestion list"

definition generateQuiz :: "app_state \<Rightarrow> gen_response \<Rightarrow> app_state" where
  "generateQuiz s r =
     (case r of
        Parsed generatedQuestions \<Rightarrow>
          s\<lparr>questions := generatedQuestions, timeLeft := 600, step := Quiz\<rparr>
      | _ \<Rightarrow>
          s\<lparr>error := Some ''Failed to generate quiz. Please try again or check your connection.'',
            step := Profile\<rparr>)"

text \<open>
  \<open>handleAnswer\<close> (lines 122 to 131). \<open>questions.length - 1\<close> is \<open>-1\<close> for an
  empty array, so the comparison is made on integers.
\<close>

definition handleAnswer :: "app_state \<Rightarrow> int \<Rightarrow> app_state" where
  "handleAnswer s optionIndex =
     (let newAnswers = answers s @ [optionIndex];
          s1 = s\<lparr>answers := newAnswers\<rparr>
      in if int (currentQuestionIndex s) < int (length (questions s)) - 1
         then s1\<lparr>currentQuestionIndex := currentQuestionIndex s + 1\<rparr>
         else s1\<lparr>step := Results\<rparr>)"

text \<open>\<open>calculateScore\<close> (lines 133 to 140): \<open>forEach\<close> with the index, as a loop.\<close>

fun calculateScore_loop :: "QuizQuestion list \<Rightarrow> int list \<Rightarrow> nat \<Rightarrow> nat \<Rightarrow> nat" where
  "calculateScore_loop [] as i score = score"
| "calculateScore_loop (q # qs) as i score =
     calculateScore_loop qs as (i + 1)
       (if js_index as i \<noteq> None \<and> js_index as i = Some (correctAnswerIndex q)
        then score + 1 else score)"

definition calculateScore :: "app_state \<Rightarrow> nat" where
  "calculateScore s = calculateScore_loop (questions s) (answers s) 0 0"

text \<open>\<open>restartQuiz\<close> (lines 275 to 282). It has no \<open>setProfile\<close>.\<close>

definition restartQuiz :: "app_state \<Rightarrow> app_state" where
  "restartQuiz s =
     s\<lparr>step := Profile, questions := [], answers := [], currentQuestionIndex := 0,
       error := None, timeLeft := 600\<rparr>"

text \<open>
  The results branch of the render (lines 424 to 447): the score, the verdict and the
  two texts that depend on it.
\<close>

record results_view =
  rv_score :: nat
  rv_total :: nat
  rv_passed :: bool
  rv_label :: string

definition resultsView :: "app_state \<Rightarrow> results_view" where
  "resultsView s =
     (let score = calculateScore s;
          passed = (score \<ge> 7)
      in \<lparr>rv_score = score, rv_total = length (questions s), rv_passed = passed,
          rv_label = (if passed then ''COMPETENT'' else ''NOT YET COMPETENT'')\<rparr>)"

subsection \<open>The report\<close>

text \<open>
  \<open>generatePDF\<close> (lines 148 to 273) drives the external jsPDF document. The model
  is the sequence of calls it makes on the document, in order. The wrapping function
  \<open>doc.splitTextToSize\<close>, the white space class of the runtime and the date string
  belong to the environment and are parameters. A text is a list of lines; a plain
  string is a list of one line.
\<close>

datatype draw_op =
    SetTextColor int int int
  | SetDrawColor int int int
  | SetFillColor int int int
  | SetFont string string
  | SetFontSize int
  | SetLineWidth int
  | Line int int int int
  | Rect int int int int string
  | DrawText "string list" int int
  | DrawTextAligned "string list" int int string
  | AddPage
  | SetPage nat
  | Save string

text \<open>
  \<open>Math.round((score/total)*100)\<close> inside a template literal. JavaScript numbers
  are IEEE 754 binary64 values, and every operation rounds its exact result to the
  nearest such value, ties to the even significand. Only values that are not negative
  occur here. A finite one is \<open>Dbl m e\<close>, standing for \<open>m * 2 ^ e\<close>.

  \<open>round_to_double num den\<close> is the quotient \<open>num / den\<close> of two positive integers
  rounded to a significand of 53 bits: the quotient is scaled by a power of two into
  the interval from \<open>2 ^ 52\<close> to \<open>2 ^ 53\<close> and rounded there to the nearest integer, ties
  to even. The exponent is not bounded, so overflow and subnormal results are not
  modelled; neither can arise from the operands here, which are array lengths (below
  \<open>2 ^ 32\<close>, so \<open>js_of_nat\<close> is exact) and the constant 100.
\<close>

function bit_length :: "nat \<Rightarrow> nat" where
  "bit_length n = (if n = 0 then 0 else 1 + bit_length (n div 2))"
  by pat_completeness auto
termination
  by (relation "measure id") auto

declare bit_length.simps [simp del]

definition round_half_even :: "nat \<Rightarrow> nat \<Rightarrow> nat" where
  "round_half_even n d =
     (let q = n div d; r = n mod d
      in if 2 * r < d then q else if 2 * r > d then q + 1
         else if even q then q else q + 1)"

datatype js_double = Dbl nat int | DNaN | DInfinity

definition round_to_double :: "nat \<Rightarrow> nat \<Rightarrow> js_double" where
  "round_to_double num den =
     (let d0 = int (bit_length num) - int (bit_length den);
          e = (if num * 2 ^ nat (- d0) \<ge> den * 2 ^ nat d0 then d0 else d0 - 1);
          sh = 52 - e
      in Dbl (round_half_even (num * 2 ^ nat sh) (den * 2 ^ nat (- sh))) (- sh))"

definition js_of_nat :: "nat \<Rightarrow> js_double" where
  "js_of_nat n = Dbl n 0"

text \<open>
  Division and multiplication of values that are not negative: \<open>0/0\<close> and
  \<open>Infinity/Infinity\<close> are \<open>NaN\<close>, a positive number over \<open>0\<close> is \<open>Infinity\<close>,
  \<open>Infinity * 0\<close> is \<open>NaN\<close>, and \<open>NaN\<close> propagates.
\<close>

fun js_divide :: "js_double \<Rightarrow> js_double \<Rightarrow> js_double" where
  "js_divide (Dbl a ea) (Dbl b eb) =
     (if b = 0 then (if a = 0 then DNaN else DInfinity)
      else if a = 0 then Dbl 0 0
      else round_to_double (a * 2 ^ nat (ea - eb)) (b * 2 ^ nat (eb - ea)))"
| "js_divide (Dbl a ea) DInfinity = Dbl 0 0"
| "js_divide DInfinity (Dbl b eb) = DInfinity"
| "js_divide DInfinity DInfinity = DNaN"
| "js_divide DNaN y = DNaN"
| "js_divide x DNaN = DNaN"

fun js_times :: "js_double \<Rightarrow> js_double \<Rightarrow> js_double" where
  "js_times (Dbl a ea) (Dbl b eb) =
     (if a = 0 \<or> b = 0 then Dbl 0 0
      else round_to_double (a * b * 2 ^ nat (ea + eb)) (2 ^ nat (- (ea + eb))))"
| "js_times (Dbl a ea) DInfinity = (if a = 0 then DNaN else DInfinity)"
| "js_times DInfinity (Dbl b eb) = (if b = 0 then DNaN else DInfinity)"
| "js_times DInfinity DInfinity = DInfinity"
| "js_times DNaN y = DNaN"
| "js_times x DNaN = DNaN"

text \<open>
  \<open>Math.round\<close> returns the nearest integer, a tie going up, and returns \<open>NaN\<close> and
  \<open>Infinity\<close> unchanged. Its result is an integer that is not negative, \<open>NaN\<close> or
  \<open>Infinity\<close>; the template literal prints the three as below. (An integer prints as
  its decimal digits below \<open>10 ^ 21\<close>; the score never exceeds the total, so the
  percentage of a report is at most 100.)
\<close>

datatype js_number = Finite nat | NaN | PosInfinity

fun Math_round :: "js_double \<Rightarrow> js_number" where
  "Math_round (Dbl m e) =
     Finite (if e \<ge> 0 then m * 2 ^ nat e
             else (m + 2 ^ (nat (- e) - 1)) div 2 ^ nat (- e))"
| "Math_round DNaN = NaN"
| "Math_round DInfinity = PosInfinity"

definition percentage :: "nat \<Rightarrow> nat \<Rightarrow> js_number" where
  "percentage score total_n =
     Math_round (js_times (js_divide (js_of_nat score) (js_of_nat total_n)) (js_of_nat 100))"

definition js_number_str :: "js_number \<Rightarrow> string" where
  "js_number_str v =
     (case v of Finite k \<Rightarrow> show_nat k | NaN \<Rightarrow> ''NaN'' | PosInfinity \<Rightarrow> ''Infinity'')"

text \<open>Lines 155 to 198: letterhead, separator, and the box with date and profile.\<close>

definition pdf_header :: "string \<Rightarrow> app_state \<Rightarrow> draw_op list" where
  "pdf_header date s =
     [SetTextColor 0 51 102, SetFont ''helvetica'' ''bold'', SetFontSize 40,
      DrawText [''CLdN''] 15 25,
      SetFontSize 22, SetTextColor 0 51 102,
      DrawTextAligned [''COLREGs Competency Report''] 200 25 ''right'',
      SetDrawColor 0 51 102, SetLineWidth 1, Line 15 35 200 35,
      SetFillColor 245 247 250, Rect 15 45 185 45 ''F'',
      SetTextColor 0 0 0, SetFontSize 12, SetFont ''helvetica'' ''normal'',
      DrawText [''Date:''] 25 55, SetFont ''helvetica'' ''bold'', DrawText [date] 55 55,
      SetFont ''helvetica'' ''normal'',
      DrawText [''Name:''] 25 65, SetFont ''helvetica'' ''bold'',
      DrawText [name (profile s)] 55 65,
      SetFont ''helvetica'' ''normal'',
      DrawText [''Rank:''] 25 75, SetFont ''helvetica'' ''bold'',
      DrawText [rank (profile s)] 55 75,
      SetFont ''helvetica'' ''normal'',
      DrawText [''Vessel:''] 25 85, SetFont ''helvetica'' ''bold'',
      DrawText [vessel (profile s)] 55 85]"

text \<open>Lines 200 to 208: the score line and the verdict line.\<close>

definition scoreLine :: "nat \<Rightarrow> nat \<Rightarrow> string" where
  "scoreLine score total_n =
     ''Final Score: '' @ show_nat score @ '' / '' @ show_nat total_n @ '' ('' @
     js_number_str (percentage score total_n) @ ''%)''"

definition pdf_score_box :: "app_state \<Rightarrow> draw_op list" where
  "pdf_score_box s =
     (let score = calculateScore s;
          total_n = length (questions s);
          passed = (score \<ge> 7)
      in [SetFontSize 14, SetTextColor 0 51 102,
          DrawText [scoreLine score total_n] 130 65,
          SetTextColor (if passed then 0 else 200) (if passed then 128 else 0) 0,
          SetFontSize 16,
          DrawText [if passed then ''RESULT: PASS'' else ''RESULT: FAIL''] 130 75])"

text \<open>
  Lines 217 to 261: the body of the \<open>forEach\<close> for question \<open>q\<close> at index \<open>i\<close>,
  entered with the running offset \<open>yPos\<close>. It returns the calls made and the offset
  it leaves.
\<close>

definition review_block ::
  "(string \<Rightarrow> int \<Rightarrow> string list) \<Rightarrow> int list \<Rightarrow> nat \<Rightarrow> QuizQuestion \<Rightarrow> int
     \<Rightarrow> draw_op list \<times> int" where
  "review_block splitTextToSize as i q yPos =
     (let pageBreak = (yPos > 250);
          yPos1 = (if pageBreak then 20 else yPos);
          hasAnswered = (js_index as i \<noteq> None);
          isCorrect = (hasAnswered \<and> js_index as i = Some (correctAnswerIndex q));
          userAnswer = (case js_index as i of
                          Some a \<Rightarrow> js_str (js_index_int (options q) a)
                        | None \<Rightarrow> ''No Answer (Time expired)'');
          correctAnswer = js_str (js_index_int (options q) (correctAnswerIndex q));
          splitQuestion = splitTextToSize (''Q'' @ show_nat (i + 1) @ '': '' @ question q) 180;
          yPos2 = yPos1 + int (length splitQuestion) * 5 + 2;
          yPos3 = yPos2 + 7;
          yPos4 = (if \<not> isCorrect then yPos3 + 5 else yPos3);
          yPos5 = yPos4 + 6;
          splitExplanation = splitTextToSize (''Note: '' @ explanation q) 170
      in ((if pageBreak then [AddPage] else []) @
          [SetFontSize 12, SetTextColor 0 0 0, SetFont ''helvetica'' ''bold'',
           DrawText splitQuestion 15 yPos1,
           SetFont ''helvetica'' ''normal'',
           SetTextColor (if isCorrect then 0 else 200) (if isCorrect then 150 else 0) 0,
           DrawText [if isCorrect then ''Result: CORRECT'' else ''Result: INCORRECT''] 15 yPos2,
           SetTextColor 50 50 50, SetFontSize 10] @
          (if \<not> isCorrect then [DrawText [''Your Answer: '' @ userAnswer] 15 yPos3] else []) @
          [DrawText [''Correct Answer: '' @ correctAnswer] 15 yPos4,
           SetTextColor 100 100 100,
           DrawText splitExplanation 20 yPos5],
          yPos5 + int (length splitExplanation) * 4 + 10))"

text \<open>The \<open>forEach\<close> itself: one block per question, in the order of \<open>questions\<close>.\<close>

fun review_blocks ::
  "(string \<Rightarrow> int \<Rightarrow> string list) \<Rightarrow> int list \<Rightarrow> nat \<Rightarrow> QuizQuestion list \<Rightarrow> int
     \<Rightarrow> draw_op list list" where
  "review_blocks splitTextToSize as i [] yPos = []"
| "review_blocks splitTextToSize as i (q # qs) yPos =
     (case review_block splitTextToSize as i q yPos of
        (ops, yPos') \<Rightarrow> ops # review_blocks splitTextToSize as (i + 1) qs yPos')"

definition pdf_review :: "(string \<Rightarrow> int \<Rightarrow> string list) \<Rightarrow> app_state \<Rightarrow> draw_op list" where
  "pdf_review splitTextToSize s =
     [SetTextColor 0 51 102, SetFontSize 14, SetFont ''helvetica'' ''bold'',
      DrawText [''Detailed Assessment:''] 15 100] @
     concat (review_blocks splitTextToSize (answers s) 0 (questions s) 110)"

text \<open>
  Lines 263 to 270: the footer on every page. A new document has one page and every
  \<open>addPage\<close> adds one.
\<close>

definition pageCount :: "draw_op list \<Rightarrow> nat" where
  "pageCount ops = 1 + length (filter (\<lambda>d. d = AddPage) ops)"

definition pdf_footer :: "nat \<Rightarrow> draw_op list" where
  "pdf_footer n =
     concat (map (\<lambda>i. [SetPage i, SetFontSize 10, SetTextColor 150 150 150,
                        DrawTextAligned [''CLdN Competency Assurance System''] 105 290 ''center''])
                 [1..<n + 1])"

text \<open>
  Line 272: \<open>profile.name.replace(/\s+/g, '_')\<close>, every maximal run of white space
  becomes one underscore. Which characters the class \<open>\s\<close> holds is a table of the
  JavaScript runtime and a parameter here.
\<close>

fun replace_spaces :: "(char \<Rightarrow> bool) \<Rightarrow> bool \<Rightarrow> string \<Rightarrow> string" where
  "replace_spaces isWhiteSpace inRun [] = []"
| "replace_spaces isWhiteSpace inRun (c # cs) =
     (if isWhiteSpace c
      then (if inRun then replace_spaces isWhiteSpace True cs
            else CHR ''_'' # replace_spaces isWhiteSpace True cs)
      else c # replace_spaces isWhiteSpace False cs)"

definition generatePDF ::
  "(string \<Rightarrow> int \<Rightarrow> string list) \<Rightarrow> (char \<Rightarrow> bool) \<Rightarrow> string \<Rightarrow> app_state
     \<Rightarrow> draw_op list" where
  "generatePDF splitTextToSize isWhiteSpace date s =
     (let body = pdf_header date s @ pdf_score_box s @ pdf_review splitTextToSize s
      in body @ pdf_footer (pageCount body) @
         [Save (replace_spaces isWhiteSpace False (name (profile s))
                @ ''_CLdN_COLREG_Report.pdf'')])"

text \<open>The texts a sequence of calls puts on the page, in order.\<close>

fun texts_of :: "draw_op list \<Rightarrow> string list list" where
  "texts_of [] = []"
| "texts_of (DrawText t x y # ds) = t # texts_of ds"
| "texts_of (DrawTextAligned t x y a # ds) = t # texts_of ds"
| "texts_of (d # ds) = texts_of ds"

subsection \<open>Events and reachable states\<close>

text \<open>
  What can happen to the component, and in which screen. The profile form (lines 296
  to 341) is rendered only in step \<open>Profile\<close>; its three inputs replace one field each.
  The answer buttons (lines 395 to 416) exist only in step \<open>Quiz\<close> with a non-empty
  question list, one per option of \<open>questions[currentQuestionIndex]\<close>. The restart
  and download buttons (lines 451 to 463) exist only in step \<open>Results\<close>. The service
  answers only while \<open>generateQuiz\<close> is awaited, that is in step \<open>Loading\<close>. The
  timer effect runs in every step.
\<close>

datatype event =
    SetName string
  | SetRank string
  | SetVessel string
  | Submit
  | Generated gen_response
  | Answer nat
  | Tick
  | Restart

definition fire :: "app_state \<Rightarrow> event \<Rightarrow> app_state option" where
  "fire s e =
     (case e of
        SetName v \<Rightarrow>
          if step s = Profile then Some (s\<lparr>profile := (profile s)\<lparr>name := v\<rparr>\<rparr>) else None
      | SetRank v \<Rightarrow>
          if step s = Profile then Some (s\<lparr>profile := (profile s)\<lparr>rank := v\<rparr>\<rparr>) else None
      | SetVessel v \<Rightarrow>
          if step s = Profile then Some (s\<lparr>profile := (profile s)\<lparr>vessel := v\<rparr>\<rparr>) else None
      | Submit \<Rightarrow> if step s = Profile then Some (handleProfileSubmit s) else None
      | Generated r \<Rightarrow> if step s = Loading then Some (generateQuiz s r) else None
      | Answer idx \<Rightarrow>
          if step s = Quiz \<and> length (questions s) > 0
             \<and> currentQuestionIndex s < length (questions s)
             \<and> idx < length (options (questions s ! currentQuestionIndex s))
          then Some (handleAnswer s (int idx)) else None
      | Tick \<Rightarrow> Some (timerEffect s)
      | Restart \<Rightarrow> if step s = Results then Some (restartQuiz s) else None)"

fun run :: "app_state \<Rightarrow> event list \<Rightarrow> app_state option" where
  "run s [] = Some s"
| "run s (e # es) = (case fire s e of None \<Rightarrow> None | Some s' \<Rightarrow> run s' es)"

inductive reachable :: "app_state \<Rightarrow> bool" where
  reachable_initial: "reachable initial_state"
| reachable_fire: "reachable s \<Longrightarrow> fire s e = Some s' \<Longrightarrow> reachable s'"

text \<open>
  The invariant of the answer record: the answers fill the indices below
  \<open>length (answers s)\<close> with nothing beyond the questions, while the quiz runs the next
  answer belongs to the question on display, and the index on display is a question
  whenever there is one.
\<close>

definition session_inv :: "app_state \<Rightarrow> bool" where
  "session_inv s =
     (currentQuestionIndex s \<le> length (questions s)
      \<and> length (answers s) \<le> length (questions s)
      \<and> (if step s = Quiz
         then length (answers s) = currentQuestionIndex s
              \<and> (questions s = [] \<or> currentQuestionIndex s < length (questions s))
         else if step s = Results
         then (length (answers s) = currentQuestionIndex s
               \<or> length (answers s) = currentQuestionIndex s + 1)
         else questions s = [] \<and> answers s = [] \<and> currentQuestionIndex s = 0))"

subsection \<open>The specification's words\<close>

text \<open>
  The specification's valid question: exactly 4 options and a correct index in
  \<open>[0,3]\<close>; and its valid response: exactly 10 valid questions. The source has no
  such check; these two definitions only state what the specification asks for.
\<close>

definition spec_valid_question :: "QuizQuestion \<Rightarrow> bool" where
  "spec_valid_question q =
     (length (options q) = 4 \<and> 0 \<le> correctAnswerIndex q \<and> correctAnswerIndex q \<le> 3)"

definition spec_valid_response :: "gen_response \<Rightarrow> bool" where
  "spec_valid_response r =
     (case r of Parsed qs \<Rightarrow> length qs = 10 \<and> list_all spec_valid_question qs | _ \<Rightarrow> False)"

text \<open>
  The marker for a missing answer as the specification spells it, and a test for one
  text occurring inside another.
\<close>

definition spec_no_answer_marker :: string where
  "spec_no_answer_marker = ''No Answer (time expired)''"

fun starts_with :: "string \<Rightarrow> string \<Rightarrow> bool" where
  "starts_with [] ys = True"
| "starts_with (x # xs) [] = False"
| "starts_with (x # xs) (y # ys) = (x = y \<and> starts_with xs ys)"

fun contains_text :: "string \<Rightarrow> string \<Rightarrow> bool" where
  "contains_text t [] = (t = [])"
| "contains_text t (y # ys) = (starts_with t (y # ys) \<or> contains_text t ys)"

text \<open>The number of indices at which the specification counts a hit.\<close>

definition spec_hits :: "QuizQuestion list \<Rightarrow> int list \<Rightarrow> nat" where
  "spec_hits qs as =
     card {i. i < length qs \<and> i < length as \<and> as ! i = correctAnswerIndex (qs ! i)}"

subsection \<open>Example data\<close>

text \<open>
  The profile of the specification's example, a well-formed question whose correct
  option is the first, and a question the specification would reject.
\<close>

definition example_profile :: UserProfile where
  "example_profile = \<lparr>name = ''A B'', rank = ''Officer'', vessel = ''MV X''\<rparr>"

definition example_question :: QuizQuestion where
  "example_question =
     \<lparr>question = ''Which side?'', options = [''port'', ''starboard'', ''ahead'', ''astern''],
      correctAnswerIndex = 0, explanation = ''Rule 14''\<rparr>"

definition malformed_question :: QuizQuestion where
  "malformed_question =
     \<lparr>question = ''Which side?'', options = [''port'', ''starboard''],
      correctAnswerIndex = 7, explanation = ''Rule 14''\<rparr>"

definition example_session :: "step \<Rightarrow> QuizQuestion list \<Rightarrow> nat \<Rightarrow> int list \<Rightarrow> int \<Rightarrow> app_state" where
  "example_session st qs i as t =
     \<lparr>step = st, profile = example_profile, questions = qs, currentQuestionIndex = i,
      answers = as, error = None, timeLeft = t\<rparr>"

section \<open>Scoring\<close>

lemma calculateScore_loop_filter:
  "calculateScore_loop qs as i sc =
     sc + length (filter (\<lambda>j. i + j < length as \<and> as ! (i + j) = correctAnswerIndex (qs ! j))
                    [0..<length qs])"
proof (induction qs arbitrary: i sc)
  case Nil
  then show ?case by simp
next
  case (Cons q qs)
  have up: "[0..<length (q # qs)] = 0 # map Suc [0..<length qs]"
    by (simp add: upt_conv_Cons map_Suc_upt del: upt_Suc)
  show ?case
    unfolding up
    by (simp add: Cons.IH js_index_def filter_map o_def)
qed

lemma spec_hits_filter:
  "spec_hits qs as =
     length (filter (\<lambda>j. j < length as \<and> as ! j = correctAnswerIndex (qs ! j)) [0..<length qs])"
proof -
  have "{i. i < length qs \<and> i < length as \<and> as ! i = correctAnswerIndex (qs ! i)}
        = set (filter (\<lambda>j. j < length as \<and> as ! j = correctAnswerIndex (qs ! j)) [0..<length qs])"
    by auto
  then show ?thesis
    unfolding spec_hits_def by (simp only: distinct_card [OF distinct_filter [OF distinct_upt]])
qed

lemma calculateScore_spec_hits: "calculateScore s = spec_hits (questions s) (answers s)"
  by (simp add: calculateScore_def calculateScore_loop_filter spec_hits_filter)

lemma spec_hits_le_questions: "spec_hits qs as \<le> length qs"
proof -
  have "length (filter (\<lambda>j. j < length as \<and> as ! j = correctAnswerIndex (qs ! j)) [0..<length qs])
          \<le> length [0..<length qs]"
    by (rule length_filter_le)
  then show ?thesis by (simp add: spec_hits_filter)
qed

lemma spec_hits_le_answers: "spec_hits qs as \<le> length as"
proof -
  have "{i. i < length qs \<and> i < length as \<and> as ! i = correctAnswerIndex (qs ! i)}
          \<subseteq> {..<length as}"
    by auto
  then have "card {i. i < length qs \<and> i < length as \<and> as ! i = correctAnswerIndex (qs ! i)}
               \<le> card {..<length as}"
    by (intro card_mono) simp_all
  then show ?thesis by (simp add: spec_hits_def)
qed

lemma spec_hits_take: "spec_hits (take (length as) qs) as = spec_hits qs as"
proof -
  have "{i. i < length (take (length as) qs) \<and> i < length as
            \<and> as ! i = correctAnswerIndex (take (length as) qs ! i)}
        = {i. i < length qs \<and> i < length as \<and> as ! i = correctAnswerIndex (qs ! i)}"
    by auto
  then show ?thesis by (simp only: spec_hits_def)
qed

text \<open>
  C4. For every question list and every answer record, \<open>calculateScore\<close> is the number
  of indices below the number of questions at which an answer exists and equals the
  question's \<open>correctAnswerIndex\<close>; the total shown with it is the number of questions.
  So the score is at most the number of questions and at most the number of answers,
  and the questions beyond the answer record contribute nothing: dropping them leaves
  the score unchanged.
\<close>

theorem calculateScore_counts_hits:
  "calculateScore s =
     card {i. i < length (questions s) \<and> i < length (answers s)
              \<and> answers s ! i = correctAnswerIndex (questions s ! i)}
   \<and> rv_score (resultsView s) = calculateScore s
   \<and> rv_total (resultsView s) = length (questions s)
   \<and> calculateScore s \<le> length (questions s)
   \<and> calculateScore s \<le> length (answers s)
   \<and> calculateScore (s\<lparr>questions := take (length (answers s)) (questions s)\<rparr>) = calculateScore s"
proof -
  have a: "calculateScore s = spec_hits (questions s) (answers s)"
    by (rule calculateScore_spec_hits)
  have b: "calculateScore (s\<lparr>questions := take (length (answers s)) (questions s)\<rparr>)
             = calculateScore s"
    by (simp add: calculateScore_spec_hits spec_hits_take)
  show ?thesis
    using a b spec_hits_le_questions [of "questions s" "answers s"]
      spec_hits_le_answers [of "questions s" "answers s"]
    by (simp add: spec_hits_def resultsView_def Let_def)
qed

section \<open>Restart\<close>

text \<open>
  C1, as the specification states it, fails: \<open>restartQuiz\<close> does not touch the profile.
  After a restart from a completed session with the example profile, the profile is
  still the example profile and not the empty one.
\<close>

theorem restartQuiz_keeps_profile_counterexample:
  "profile (restartQuiz (example_session Results [example_question] 0 [0] 0)) =
     \<lparr>name = ''A B'', rank = ''Officer'', vessel = ''MV X''\<rparr>
   \<and> profile (restartQuiz (example_session Results [example_question] 0 [0] 0)) \<noteq>
     \<lparr>name = [], rank = [], vessel = []\<rparr>"
  by (simp add: restartQuiz_def example_session_def example_profile_def)

text \<open>
  C1, amended. Restart from any state sets the step to \<open>Profile\<close>, empties the
  questions and the answers, sets \<open>currentQuestionIndex\<close> to 0, clears the error and
  sets \<open>timeLeft\<close> to 600; the profile keeps its three fields.
\<close>

theorem restartQuiz_resets_all_but_profile:
  "restartQuiz s =
     \<lparr>step = Profile, profile = profile s, questions = [], currentQuestionIndex = 0,
      answers = [], error = None, timeLeft = 600\<rparr>"
  by (simp add: restartQuiz_def)

section \<open>Profile submission\<close>

text \<open>
  C7. With all three profile fields non-empty, submission clears the error and moves
  to \<open>Loading\<close>, changing nothing else. With any field empty it sets the validation
  message and changes nothing else, so the step stays \<open>Profile\<close>. In step \<open>Profile\<close>
  (the only step that shows the form) the step after submission is \<open>Loading\<close> exactly
  when the three fields are non-empty.
\<close>

theorem handleProfileSubmit_validates:
  "(name (profile s) \<noteq> [] \<and> rank (profile s) \<noteq> [] \<and> vessel (profile s) \<noteq> []
      \<longrightarrow> handleProfileSubmit s = s\<lparr>error := None, step := Loading\<rparr>)
   \<and> (name (profile s) = [] \<or> rank (profile s) = [] \<or> vessel (profile s) = []
      \<longrightarrow> handleProfileSubmit s = s\<lparr>error := Some ''Please fill in all fields.''\<rparr>)
   \<and> (step s = Profile \<longrightarrow>
        (step (handleProfileSubmit s) = Loading) =
          (name (profile s) \<noteq> [] \<and> rank (profile s) \<noteq> [] \<and> vessel (profile s) \<noteq> [])
        \<and> (step (handleProfileSubmit s) \<noteq> Loading \<longrightarrow> step (handleProfileSubmit s) = Profile)
        \<and> fire s Submit = Some (handleProfileSubmit s))"
  by (simp add: handleProfileSubmit_def fire_def)

theorem handleProfileSubmit_validates_witness:
  "handleProfileSubmit (example_session Profile [] 0 [] 600) =
     (example_session Profile [] 0 [] 600)\<lparr>error := None, step := Loading\<rparr>
   \<and> step (handleProfileSubmit (example_session Profile [] 0 [] 600)) = Loading
   \<and> handleProfileSubmit initial_state =
       initial_state\<lparr>error := Some ''Please fill in all fields.''\<rparr>
   \<and> step (handleProfileSubmit initial_state) = Profile
   \<and> handleProfileSubmit ((example_session Profile [] 0 [] 600)\<lparr>profile := example_profile\<lparr>rank := []\<rparr>\<rparr>) =
       (example_session Profile [] 0 [] 600)\<lparr>profile := example_profile\<lparr>rank := []\<rparr>,
          error := Some ''Please fill in all fields.''\<rparr>"
  using handleProfileSubmit_validates [of "example_session Profile [] 0 [] 600"]
    handleProfileSubmit_validates [of initial_state]
    handleProfileSubmit_validates
      [of "(example_session Profile [] 0 [] 600)\<lparr>profile := example_profile\<lparr>rank := []\<rparr>\<rparr>"]
  by (simp add: example_session_def example_profile_def initial_state_def)

section \<open>The countdown\<close>

lemma timerEffect_funpow:
  "step s = Quiz \<Longrightarrow> timeLeft s = int n \<Longrightarrow> (timerEffect ^^ n) s = s\<lparr>timeLeft := 0\<rparr>"
proof (induction n arbitrary: s)
  case 0
  then show ?case by simp
next
  case (Suc n)
  have "(timerEffect ^^ Suc n) s = (timerEffect ^^ n) (timerEffect s)"
    by (simp add: funpow_swap1)
  also have "timerEffect s = s\<lparr>timeLeft := int n\<rparr>"
    using Suc.prems by (simp add: timerEffect_def)
  also have "(timerEffect ^^ n) (s\<lparr>timeLeft := int n\<rparr>) = s\<lparr>timeLeft := int n\<rparr>\<lparr>timeLeft := 0\<rparr>"
    using Suc.prems by (intro Suc.IH) simp_all
  finally show ?case by simp
qed

lemma countdown_expires:
  assumes "step s = Quiz" and "timeLeft s = int n"
  shows "(timerEffect ^^ Suc n) s = s\<lparr>timeLeft := 0, step := Results\<rparr>"
proof -
  have "(timerEffect ^^ Suc n) s = timerEffect ((timerEffect ^^ n) s)"
    by simp
  also have "\<dots> = timerEffect (s\<lparr>timeLeft := 0\<rparr>)"
    using assms by (simp only: timerEffect_funpow)
  also have "\<dots> = s\<lparr>timeLeft := 0, step := Results\<rparr>"
    using assms by (simp add: timerEffect_def)
  finally show ?thesis .
qed

lemma fire_timeLeft:
  assumes "fire s e = Some s'" and "0 \<le> timeLeft s" and "timeLeft s \<le> 600"
  shows "0 \<le> timeLeft s' \<and> timeLeft s' \<le> 600"
  using assms
  by (cases e)
     (auto simp: fire_def handleProfileSubmit_def generateQuiz_def handleAnswer_def Let_def
        timerEffect_def restartQuiz_def split: if_splits gen_response.splits)

lemma reachable_timeLeft: "reachable s \<Longrightarrow> 0 \<le> timeLeft s \<and> timeLeft s \<le> 600"
proof (induction rule: reachable.induct)
  case reachable_initial
  show ?case by (simp add: initial_state_def)
next
  case (reachable_fire s e s')
  then show ?case using fire_timeLeft by blast
qed

text \<open>
  C9. In step \<open>Quiz\<close> with time left, one tick takes exactly 1 from \<open>timeLeft\<close> and
  changes nothing else. In step \<open>Quiz\<close> with \<open>timeLeft = 0\<close> the effect sets the step
  to \<open>Results\<close> and changes nothing else, so an answer record shorter than the question
  list stays shorter. In every other step the effect changes nothing. From 600, with
  nothing else happening, 601 runs of the effect end in \<open>Results\<close> with \<open>timeLeft = 0\<close>.
  In every reachable state \<open>timeLeft\<close> lies between 0 and 600, so in step \<open>Quiz\<close> one
  of the first two cases applies.
\<close>

theorem timerEffect_countdown:
  "(step s = Quiz \<and> timeLeft s > 0 \<longrightarrow> timerEffect s = s\<lparr>timeLeft := timeLeft s - 1\<rparr>)
   \<and> (step s = Quiz \<and> timeLeft s = 0 \<longrightarrow> timerEffect s = s\<lparr>step := Results\<rparr>)
   \<and> (step s \<noteq> Quiz \<longrightarrow> timerEffect s = s)
   \<and> (step s = Quiz \<and> timeLeft s = 600 \<longrightarrow>
        (timerEffect ^^ 601) s = s\<lparr>timeLeft := 0, step := Results\<rparr>)
   \<and> (step s = Quiz \<and> timeLeft s = 0 \<and> length (answers s) < length (questions s) \<longrightarrow>
        length (answers (timerEffect s)) < length (questions (timerEffect s)))
   \<and> (reachable s \<longrightarrow> 0 \<le> timeLeft s \<and> timeLeft s \<le> 600)
   \<and> fire s Tick = Some (timerEffect s)"
proof -
  have "(timerEffect ^^ Suc 600) s = s\<lparr>timeLeft := 0, step := Results\<rparr>"
    if "step s = Quiz" "timeLeft s = 600"
    using that countdown_expires [of s 600] by simp
  then have c: "step s = Quiz \<and> timeLeft s = 600 \<longrightarrow>
        (timerEffect ^^ 601) s = s\<lparr>timeLeft := 0, step := Results\<rparr>"
    by (simp del: funpow.simps)
  show ?thesis
    using c reachable_timeLeft [of s] by (simp add: timerEffect_def fire_def del: funpow.simps)
qed

theorem timerEffect_countdown_witness:
  "timerEffect (example_session Quiz [example_question] 0 [] 600) =
     example_session Quiz [example_question] 0 [] 599
   \<and> timerEffect (example_session Quiz [example_question] 0 [] 0) =
     example_session Results [example_question] 0 [] 0
   \<and> length (answers (timerEffect (example_session Quiz [example_question] 0 [] 0)))
       < length (questions (timerEffect (example_session Quiz [example_question] 0 [] 0)))
   \<and> timerEffect (example_session Results [example_question] 0 [0] 17) =
     example_session Results [example_question] 0 [0] 17
   \<and> timerEffect (example_session Loading [] 0 [] 600) = example_session Loading [] 0 [] 600
   \<and> (timerEffect ^^ 601) (example_session Quiz [example_question] 0 [] 600) =
     example_session Results [example_question] 0 [] 0
   \<and> 0 \<le> timeLeft initial_state \<and> timeLeft initial_state \<le> 600"
  using timerEffect_countdown [of "example_session Quiz [example_question] 0 [] 600"]
    timerEffect_countdown [of "example_session Quiz [example_question] 0 [] 0"]
    timerEffect_countdown [of "example_session Results [example_question] 0 [0] 17"]
    timerEffect_countdown [of "example_session Loading [] 0 [] 600"]
    timerEffect_countdown [of initial_state]
    reachable_initial
  by (simp add: example_session_def del: funpow.simps)

section \<open>Answer submission\<close>

lemma handleAnswer_advance:
  "currentQuestionIndex s + 1 < length (questions s) \<Longrightarrow>
   handleAnswer s k = s\<lparr>answers := answers s @ [k], currentQuestionIndex := currentQuestionIndex s + 1\<rparr>"
  by (simp add: handleAnswer_def Let_def)

lemma handleAnswer_last:
  "length (questions s) \<le> currentQuestionIndex s + 1 \<Longrightarrow>
   handleAnswer s k = s\<lparr>answers := answers s @ [k], step := Results\<rparr>"
  by (simp add: handleAnswer_def Let_def)

lemma foldl_handleAnswer_advance:
  "currentQuestionIndex s + length ks < length (questions s) \<Longrightarrow>
   foldl handleAnswer s ks =
     s\<lparr>answers := answers s @ ks, currentQuestionIndex := currentQuestionIndex s + length ks\<rparr>"
proof (induction ks arbitrary: s)
  case Nil
  then show ?case by simp
next
  case (Cons k ks)
  let ?s1 = "s\<lparr>answers := answers s @ [k], currentQuestionIndex := currentQuestionIndex s + 1\<rparr>"
  have h: "handleAnswer s k = ?s1"
    using Cons.prems by (intro handleAnswer_advance) simp
  have "foldl handleAnswer ?s1 ks =
          ?s1\<lparr>answers := answers ?s1 @ ks, currentQuestionIndex := currentQuestionIndex ?s1 + length ks\<rparr>"
    using Cons.prems by (intro Cons.IH) simp
  then show ?case by (simp add: h)
qed

lemma foldl_handleAnswer_all:
  assumes "currentQuestionIndex s = 0" and "answers s = []"
    and "questions s \<noteq> []" and "length ks = length (questions s)"
  shows "foldl handleAnswer s ks =
           s\<lparr>answers := ks, currentQuestionIndex := length (questions s) - 1, step := Results\<rparr>"
proof -
  from assms have "ks \<noteq> []" by auto
  then obtain ks' k where ks: "ks = ks' @ [k]"
    by (metis rev_exhaust)
  have len: "length ks' = length (questions s) - 1"
    using assms ks by simp
  let ?s1 = "s\<lparr>answers := answers s @ ks',
               currentQuestionIndex := currentQuestionIndex s + length ks'\<rparr>"
  have a: "foldl handleAnswer s ks' = ?s1"
    using assms ks by (intro foldl_handleAnswer_advance) simp
  have b: "handleAnswer ?s1 k = ?s1\<lparr>answers := answers ?s1 @ [k], step := Results\<rparr>"
    using assms ks by (intro handleAnswer_last) simp
  have "foldl handleAnswer s ks = handleAnswer (foldl handleAnswer s ks') k"
    by (simp add: ks)
  also have "\<dots> = handleAnswer ?s1 k"
    by (simp only: a)
  also have "\<dots> = ?s1\<lparr>answers := answers ?s1 @ [k], step := Results\<rparr>"
    by (rule b)
  also have "\<dots> = s\<lparr>answers := ks, currentQuestionIndex := length (questions s) - 1,
                      step := Results\<rparr>"
    using assms len by (simp add: ks)
  finally show ?thesis .
qed

lemma foldl_handleAnswer_prefix:
  assumes "currentQuestionIndex s = 0" and "n < length (questions s)"
  shows "step (foldl handleAnswer s (take n ks)) = step s"
proof -
  have "foldl handleAnswer s (take n ks) =
     s\<lparr>answers := answers s @ take n ks,
       currentQuestionIndex := currentQuestionIndex s + length (take n ks)\<rparr>"
    using assms by (intro foldl_handleAnswer_advance) simp
  then show ?thesis by simp
qed

text \<open>
  C6. Below the last index, \<open>handleAnswer\<close> appends the selected index to the answers
  and advances \<open>currentQuestionIndex\<close> by exactly 1, leaving the step as it is. At the
  last index it appends the selected index and sets the step to \<open>Results\<close>. Started in
  step \<open>Quiz\<close> at index 0 with no answers and 10 questions, 10 submissions in a row end
  in \<open>Results\<close> with exactly the 10 answers, every earlier submission was made in step
  \<open>Quiz\<close>, and \<open>timeLeft\<close>, whatever it is, is neither read nor changed.
\<close>

theorem handleAnswer_progress:
  "(currentQuestionIndex s + 1 < length (questions s) \<longrightarrow>
      handleAnswer s k =
        s\<lparr>answers := answers s @ [k], currentQuestionIndex := currentQuestionIndex s + 1\<rparr>)
   \<and> (currentQuestionIndex s + 1 = length (questions s) \<longrightarrow>
      handleAnswer s k = s\<lparr>answers := answers s @ [k], step := Results\<rparr>)
   \<and> (step s = Quiz \<and> currentQuestionIndex s = 0 \<and> answers s = []
        \<and> length (questions s) = 10 \<and> length ks = 10 \<longrightarrow>
      foldl handleAnswer s ks = s\<lparr>answers := ks, currentQuestionIndex := 9, step := Results\<rparr>
      \<and> step (foldl handleAnswer s ks) = Results
      \<and> length (answers (foldl handleAnswer s ks)) = 10
      \<and> timeLeft (foldl handleAnswer s ks) = timeLeft s
      \<and> (\<forall>n<10. step (foldl handleAnswer s (take n ks)) = Quiz))"
proof -
  have c: "foldl handleAnswer s ks = s\<lparr>answers := ks, currentQuestionIndex := 9, step := Results\<rparr>"
    if "currentQuestionIndex s = 0" "answers s = []" "length (questions s) = 10" "length ks = 10"
  proof -
    have "questions s \<noteq> []" using that by auto
    then show ?thesis using that foldl_handleAnswer_all [of s ks] by simp
  qed
  have d: "step (foldl handleAnswer s (take n ks)) = Quiz"
    if "step s = Quiz" "currentQuestionIndex s = 0" "length (questions s) = 10" "n < 10" for n
    using that foldl_handleAnswer_prefix [of s n ks] by simp
  show ?thesis
    using c d by (simp add: handleAnswer_advance handleAnswer_last)
qed

theorem handleAnswer_progress_witness:
  "handleAnswer (example_session Quiz (replicate 10 example_question) 3 [0, 1, 2] 42) 1 =
     example_session Quiz (replicate 10 example_question) 4 [0, 1, 2, 1] 42
   \<and> handleAnswer (example_session Quiz (replicate 10 example_question) 9 [0, 1, 2, 3, 0, 1, 2, 3, 0] 1) 2 =
     example_session Results (replicate 10 example_question) 9 [0, 1, 2, 3, 0, 1, 2, 3, 0, 2] 1
   \<and> foldl handleAnswer (example_session Quiz (replicate 10 example_question) 0 [] 5)
        [0, 1, 2, 3, 0, 1, 2, 3, 0, 1] =
     example_session Results (replicate 10 example_question) 9 [0, 1, 2, 3, 0, 1, 2, 3, 0, 1] 5
   \<and> step (foldl handleAnswer (example_session Quiz (replicate 10 example_question) 0 [] 5)
        (take 9 [0, 1, 2, 3, 0, 1, 2, 3, 0, 1])) = Quiz"
  using handleAnswer_progress
      [of "example_session Quiz (replicate 10 example_question) 3 [0, 1, 2] 42" 1 "[]"]
    handleAnswer_progress
      [of "example_session Quiz (replicate 10 example_question) 9 [0, 1, 2, 3, 0, 1, 2, 3, 0] 1" 2 "[]"]
    handleAnswer_progress
      [of "example_session Quiz (replicate 10 example_question) 0 [] 5" 0
          "[0, 1, 2, 3, 0, 1, 2, 3, 0, 1]"]
  by (simp add: example_session_def del: foldl_Cons take_Cons_numeral)

section \<open>Reachable states and the answer record\<close>

lemma restartQuiz_session_inv: "session_inv (restartQuiz s)"
  by (simp add: session_inv_def restartQuiz_def)

lemma timerEffect_session_inv: "session_inv s \<Longrightarrow> session_inv (timerEffect s)"
  by (auto simp: session_inv_def timerEffect_def split: if_splits)

lemma handleAnswer_session_inv:
  "session_inv s \<Longrightarrow> step s = Quiz \<Longrightarrow> questions s \<noteq> [] \<Longrightarrow> session_inv (handleAnswer s k)"
  by (auto simp: session_inv_def handleAnswer_def Let_def split: if_splits)

lemma handleProfileSubmit_session_inv:
  "session_inv s \<Longrightarrow> step s = Profile \<Longrightarrow> session_inv (handleProfileSubmit s)"
  by (auto simp: session_inv_def handleProfileSubmit_def split: if_splits)

lemma generateQuiz_session_inv:
  "session_inv s \<Longrightarrow> step s = Loading \<Longrightarrow> session_inv (generateQuiz s r)"
  by (cases r) (auto simp: session_inv_def generateQuiz_def split: if_splits)

lemma fire_session_inv:
  assumes "fire s e = Some s'" and "session_inv s"
  shows "session_inv s'"
proof (cases e)
  case (SetName v)
  with assms show ?thesis by (auto simp: fire_def session_inv_def split: if_splits)
next
  case (SetRank v)
  with assms show ?thesis by (auto simp: fire_def session_inv_def split: if_splits)
next
  case (SetVessel v)
  with assms show ?thesis by (auto simp: fire_def session_inv_def split: if_splits)
next
  case Submit
  with assms show ?thesis
    by (auto simp: fire_def handleProfileSubmit_session_inv split: if_splits)
next
  case (Generated r)
  with assms show ?thesis
    by (auto simp: fire_def generateQuiz_session_inv split: if_splits)
next
  case (Answer idx)
  with assms show ?thesis
    by (auto simp: fire_def handleAnswer_session_inv split: if_splits)
next
  case Tick
  with assms show ?thesis by (auto simp: fire_def timerEffect_session_inv)
next
  case Restart
  with assms show ?thesis
    by (auto simp: fire_def restartQuiz_session_inv split: if_splits)
qed

lemma reachable_session_inv: "reachable s \<Longrightarrow> session_inv s"
proof (induction rule: reachable.induct)
  case reachable_initial
  show ?case by (simp add: session_inv_def initial_state_def)
next
  case (reachable_fire s e s')
  then show ?case using fire_session_inv by blast
qed

lemma run_reachable: "reachable s \<Longrightarrow> run s es = Some s' \<Longrightarrow> reachable s'"
proof (induction es arbitrary: s)
  case Nil
  then show ?case by simp
next
  case (Cons e es)
  then show ?case
    by (auto split: option.splits intro: reachable_fire)
qed

lemma run_append:
  "run s (es @ fs) = (case run s es of None \<Rightarrow> None | Some s' \<Rightarrow> run s' fs)"
  by (induction es arbitrary: s) (auto split: option.splits)

lemma run_ticks: "run s (replicate n Tick) = Some ((timerEffect ^^ n) s)"
proof (induction n arbitrary: s)
  case 0
  show ?case by simp
next
  case (Suc n)
  show ?case by (simp add: Suc.IH fire_def funpow_swap1)
qed

lemma run_example_quiz:
  "run initial_state
     [SetName ''A B'', SetRank ''Officer'', SetVessel ''MV X'', Submit, Generated (Parsed qs)]
   = Some (example_session Quiz qs 0 [] 600)"
  by (simp add: initial_state_def fire_def handleProfileSubmit_def generateQuiz_def
      example_session_def example_profile_def)

lemma reachable_example_quiz: "reachable (example_session Quiz qs 0 [] 600)"
  using run_reachable [OF reachable_initial run_example_quiz] .

lemma run_example_loading:
  "run initial_state [SetName ''A B'', SetRank ''Officer'', SetVessel ''MV X'', Submit]
   = Some (example_session Loading [] 0 [] 600)"
  by (simp add: initial_state_def fire_def handleProfileSubmit_def
      example_session_def example_profile_def)

lemma reachable_example_loading: "reachable (example_session Loading [] 0 [] 600)"
  using run_reachable [OF reachable_initial run_example_loading] .

text \<open>
  C8. In every reachable state the invariant \<open>session_inv\<close> holds; in particular
  \<open>currentQuestionIndex\<close> is at most the number of questions, there are at most as
  many answers as questions (the answers fill the indices from 0 without a gap, one per
  question, and only a trailing stretch of questions can be unanswered), in step \<open>Quiz\<close>
  the number of answers equals \<open>currentQuestionIndex\<close>, in step \<open>Results\<close> it equals
  \<open>currentQuestionIndex\<close> (time expired) or \<open>currentQuestionIndex + 1\<close> (last question
  answered), and before the quiz there are no answers. The invariant is preserved by
  answer submission (where the answer buttons exist: step \<open>Quiz\<close>, questions non-empty),
  by the timer effect and by restart.
\<close>

theorem session_invariant:
  "(reachable s \<longrightarrow>
      session_inv s
      \<and> currentQuestionIndex s \<le> length (questions s)
      \<and> length (answers s) \<le> length (questions s)
      \<and> (step s = Quiz \<longrightarrow> length (answers s) = currentQuestionIndex s)
      \<and> (step s = Results \<longrightarrow> length (answers s) = currentQuestionIndex s
                               \<or> length (answers s) = currentQuestionIndex s + 1)
      \<and> (step s = Profile \<or> step s = Loading \<longrightarrow> answers s = []))
   \<and> (session_inv s \<and> step s = Quiz \<and> questions s \<noteq> [] \<longrightarrow> session_inv (handleAnswer s k))
   \<and> (session_inv s \<longrightarrow> session_inv (timerEffect s))
   \<and> session_inv (restartQuiz s)"
proof -
  have "session_inv s \<Longrightarrow>
      currentQuestionIndex s \<le> length (questions s)
      \<and> length (answers s) \<le> length (questions s)
      \<and> (step s = Quiz \<longrightarrow> length (answers s) = currentQuestionIndex s)
      \<and> (step s = Results \<longrightarrow> length (answers s) = currentQuestionIndex s
                               \<or> length (answers s) = currentQuestionIndex s + 1)
      \<and> (step s = Profile \<or> step s = Loading \<longrightarrow> answers s = [])"
    by (auto simp: session_inv_def split: if_splits)
  then show ?thesis
    using reachable_session_inv [of s] handleAnswer_session_inv [of s k]
      timerEffect_session_inv [of s] restartQuiz_session_inv [of s]
    by blast
qed

theorem session_invariant_witness:
  "session_inv (example_session Quiz [example_question, example_question] 0 [] 600)
   \<and> length (answers (example_session Quiz [example_question, example_question] 0 [] 600)) =
       currentQuestionIndex (example_session Quiz [example_question, example_question] 0 [] 600)
   \<and> session_inv (handleAnswer (example_session Quiz [example_question, example_question] 0 [] 600) 2)
   \<and> session_inv (timerEffect (example_session Quiz [example_question, example_question] 0 [] 600))
   \<and> session_inv (example_session Results [example_question, example_question] 1 [1, 0] 600)
   \<and> length (answers (example_session Results [example_question, example_question] 1 [1, 0] 600)) =
       currentQuestionIndex (example_session Results [example_question, example_question] 1 [1, 0] 600) + 1
   \<and> answers initial_state = []"
proof -
  have r1: "reachable (example_session Quiz [example_question, example_question] 0 [] 600)"
    by (rule reachable_example_quiz)
  have "run (example_session Quiz [example_question, example_question] 0 [] 600) [Answer 1, Answer 0]
          = Some (example_session Results [example_question, example_question] 1 [1, 0] 600)"
    by (simp add: fire_def handleAnswer_def example_session_def example_question_def Let_def)
  then have r2: "reachable (example_session Results [example_question, example_question] 1 [1, 0] 600)"
    using run_reachable [OF r1] by blast
  show ?thesis
    using session_invariant [of "example_session Quiz [example_question, example_question] 0 [] 600" 2]
      session_invariant [of "example_session Results [example_question, example_question] 1 [1, 0] 600" 0]
      session_invariant [of initial_state 0]
      r1 r2 reachable_initial
    by (simp add: example_session_def initial_state_def)
qed

section \<open>Question generation\<close>

text \<open>
  C2, as the specification states it, fails: \<open>generateQuiz\<close> does not look at what it
  parsed. A response of one question with two options and correct index 7 is installed
  and the quiz starts.
\<close>

theorem generateQuiz_unvalidated_counterexample:
  "fire (example_session Loading [] 0 [] 600) (Generated (Parsed [malformed_question])) =
     Some (example_session Quiz [malformed_question] 0 [] 600)
   \<and> step (generateQuiz (example_session Loading [] 0 [] 600) (Parsed [malformed_question])) = Quiz
   \<and> questions (generateQuiz (example_session Loading [] 0 [] 600) (Parsed [malformed_question]))
       = [malformed_question]
   \<and> \<not> spec_valid_question malformed_question
   \<and> \<not> spec_valid_response (Parsed [malformed_question])"
  by (simp add: fire_def generateQuiz_def example_session_def spec_valid_response_def
      spec_valid_question_def malformed_question_def)

lemma fire_enters_quiz:
  assumes "fire s e = Some s'" and "step s \<noteq> Quiz" and "step s' = Quiz"
  shows "step s = Loading \<and> (\<exists>qs. e = Generated (Parsed qs) \<and> questions s' = qs)"
  using assms
  by (cases e)
     (auto simp: fire_def handleProfileSubmit_def generateQuiz_def timerEffect_def
        restartQuiz_def split: if_splits gen_response.splits)

text \<open>
  C2, amended. Whenever the service returns a text that parses, whatever the number
  and the shape of the questions, \<open>generateQuiz\<close> installs the parsed list, sets
  \<open>timeLeft\<close> to 600 and moves to \<open>Quiz\<close>; it writes nothing else. A rejected call, a
  missing or empty text and a text that does not parse set the failure message and move
  back to \<open>Profile\<close>, writing nothing else. \<open>generateQuiz\<close> runs only in a reachable
  state with step \<open>Loading\<close>, and there \<open>currentQuestionIndex\<close> is 0 and the answers are
  empty after it, and after a failure the questions are empty. A parsed response in step
  \<open>Loading\<close> is the only way into step \<open>Quiz\<close>.
\<close>

theorem generateQuiz_transitions:
  "generateQuiz s (Parsed qs) = s\<lparr>questions := qs, timeLeft := 600, step := Quiz\<rparr>
   \<and> generateQuiz s ServiceError =
       s\<lparr>error := Some ''Failed to generate quiz. Please try again or check your connection.'',
         step := Profile\<rparr>
   \<and> generateQuiz s NoText =
       s\<lparr>error := Some ''Failed to generate quiz. Please try again or check your connection.'',
         step := Profile\<rparr>
   \<and> generateQuiz s BadJson =
       s\<lparr>error := Some ''Failed to generate quiz. Please try again or check your connection.'',
         step := Profile\<rparr>
   \<and> (reachable s \<and> step s = Loading \<longrightarrow>
        fire s (Generated r) = Some (generateQuiz s r)
        \<and> currentQuestionIndex (generateQuiz s r) = 0
        \<and> answers (generateQuiz s r) = []
        \<and> (step (generateQuiz s r) = Profile \<longrightarrow> questions (generateQuiz s r) = []))
   \<and> (fire s e = Some s' \<and> step s \<noteq> Quiz \<and> step s' = Quiz \<longrightarrow>
        step s = Loading \<and> (\<exists>qs. e = Generated (Parsed qs) \<and> questions s' = qs))"
proof -
  have a: "reachable s \<and> step s = Loading \<longrightarrow>
        fire s (Generated r) = Some (generateQuiz s r)
        \<and> currentQuestionIndex (generateQuiz s r) = 0
        \<and> answers (generateQuiz s r) = []
        \<and> (step (generateQuiz s r) = Profile \<longrightarrow> questions (generateQuiz s r) = [])"
    using reachable_session_inv [of s]
    by (cases r) (auto simp: session_inv_def fire_def generateQuiz_def)
  have b: "fire s e = Some s' \<and> step s \<noteq> Quiz \<and> step s' = Quiz \<longrightarrow>
        step s = Loading \<and> (\<exists>qs. e = Generated (Parsed qs) \<and> questions s' = qs)"
    using fire_enters_quiz [of s e s'] by blast
  show ?thesis
    using a b by (simp add: generateQuiz_def)
qed

theorem generateQuiz_transitions_witness:
  "fire (example_session Loading [] 0 [] 600) (Generated (Parsed [example_question])) =
     Some (example_session Quiz [example_question] 0 [] 600)
   \<and> currentQuestionIndex (generateQuiz (example_session Loading [] 0 [] 600) (Parsed [example_question])) = 0
   \<and> answers (generateQuiz (example_session Loading [] 0 [] 600) (Parsed [example_question])) = []
   \<and> step (generateQuiz (example_session Loading [] 0 [] 600) BadJson) = Profile
   \<and> questions (generateQuiz (example_session Loading [] 0 [] 600) BadJson) = []
   \<and> (\<exists>qs. Generated (Parsed [example_question]) = Generated (Parsed qs)
            \<and> questions (example_session Quiz [example_question] 0 [] 600) = qs)"
  using generateQuiz_transitions
      [of "example_session Loading [] 0 [] 600" "[example_question]" "Parsed [example_question]"
          "Generated (Parsed [example_question])" "example_session Quiz [example_question] 0 [] 600"]
    generateQuiz_transitions
      [of "example_session Loading [] 0 [] 600" "[]" BadJson Tick "example_session Loading [] 0 [] 600"]
    reachable_example_loading
  by (simp add: example_session_def)

section \<open>The percentage of the score line\<close>

lemma round_to_double_finite: "\<exists>m e. round_to_double num den = Dbl m e"
  by (simp add: round_to_double_def Let_def)

lemma js_divide_finite:
  "b \<noteq> 0 \<Longrightarrow> \<exists>m e. js_divide (Dbl a ea) (Dbl b eb) = Dbl m e"
  using round_to_double_finite by simp

lemma js_times_finite: "\<exists>m e. js_times (Dbl a ea) (Dbl b eb) = Dbl m e"
  using round_to_double_finite by simp

lemma percentage_zero_total: "percentage score 0 \<noteq> Finite k"
  by (simp add: percentage_def js_of_nat_def)

lemma percentage_empty: "percentage 0 0 = NaN"
  by (simp add: percentage_def js_of_nat_def)

lemma percentage_numeric: "(\<exists>k. percentage score total_n = Finite k) = (total_n \<noteq> 0)"
proof (cases "total_n = 0")
  case True
  then show ?thesis by (simp add: percentage_def js_of_nat_def)
next
  case False
  then obtain m e where d: "js_divide (Dbl score 0) (Dbl total_n 0) = Dbl m e"
    using js_divide_finite by blast
  obtain m' e' where t: "js_times (Dbl m e) (Dbl 100 0) = Dbl m' e'"
    using js_times_finite by blast
  have "percentage score total_n = Math_round (Dbl m' e')"
    by (simp only: percentage_def js_of_nat_def d t)
  then show ?thesis
    using False by simp
qed

lemma round_to_double_one: "n \<noteq> 0 \<Longrightarrow> round_to_double n n = Dbl (2 ^ 52) (- 52)"
  by (simp add: round_to_double_def round_half_even_def Let_def)

lemma one_times_hundred:
  "js_times (Dbl (2 ^ 52) (- 52)) (Dbl 100 0) = Dbl 7036874417766400 (- 46)"
  by (simp add: round_to_double_def round_half_even_def bit_length.simps Let_def)

lemma percentage_all: "percentage n n = (if n = 0 then NaN else Finite 100)"
proof (cases "n = 0")
  case True
  then show ?thesis by (simp add: percentage_empty)
next
  case False
  have "js_divide (js_of_nat n) (js_of_nat n) = Dbl (2 ^ 52) (- 52)"
    using False by (simp add: js_of_nat_def round_to_double_one)
  then have "percentage n n = Math_round (js_times (Dbl (2 ^ 52) (- 52)) (Dbl 100 0))"
    by (simp only: percentage_def js_of_nat_def)
  also have "\<dots> = Finite 100"
    by (simp only: one_times_hundred) simp
  finally show ?thesis using False by simp
qed

lemma percentage_none: "percentage 0 n = (if n = 0 then NaN else Finite 0)"
  by (simp add: percentage_def js_of_nat_def)

lemma divide_23_40: "js_divide (js_of_nat 23) (js_of_nat 40) = Dbl 5179139571476070 (- 53)"
  by (simp add: js_of_nat_def round_to_double_def round_half_even_def bit_length.simps Let_def)

lemma times_23_40:
  "js_times (Dbl 5179139571476070 (- 53)) (js_of_nat 100) = Dbl 8092405580431359 (- 47)"
  by (simp add: js_of_nat_def round_to_double_def round_half_even_def bit_length.simps Let_def)

lemma percentage_23_40: "percentage 23 40 = Finite 57"
  by (simp add: percentage_def divide_23_40 times_23_40)

lemma percentage_7_10: "percentage 7 10 = Finite 70"
  by (simp add: percentage_def js_of_nat_def round_to_double_def round_half_even_def
      bit_length.simps Let_def)

lemma percentage_1_3: "percentage 1 3 = Finite 33"
  by (simp add: percentage_def js_of_nat_def round_to_double_def round_half_even_def
      bit_length.simps Let_def)

lemma percentage_2_3: "percentage 2 3 = Finite 67"
  by (simp add: percentage_def js_of_nat_def round_to_double_def round_half_even_def
      bit_length.simps Let_def)

lemma percentage_1_8: "percentage 1 8 = Finite 13"
  by (simp add: percentage_def js_of_nat_def round_to_double_def round_half_even_def
      bit_length.simps Let_def)

lemma percentage_3_0: "percentage 3 0 = PosInfinity"
  by (simp add: percentage_def js_of_nat_def)

lemma run_example_expired:
  "run initial_state
     ([SetName ''A B'', SetRank ''Officer'', SetVessel ''MV X'', Submit, Generated (Parsed qs)]
      @ replicate 601 Tick)
   = Some (example_session Results qs 0 [] 0)"
proof -
  have "(timerEffect ^^ Suc 600) (example_session Quiz qs 0 [] 600)
          = (example_session Quiz qs 0 [] 600)\<lparr>timeLeft := 0, step := Results\<rparr>"
    by (rule countdown_expires) (simp_all add: example_session_def)
  then have "(timerEffect ^^ 601) (example_session Quiz qs 0 [] 600)
          = example_session Results qs 0 [] 0"
    by (simp add: example_session_def del: funpow.simps)
  then show ?thesis
    by (simp only: run_append run_example_quiz run_ticks option.case)
qed

lemma show_nat_0: "show_nat 0 = ''0''"
  by (simp add: show_nat.simps digit_char_def)

lemma scoreLine_empty: "scoreLine 0 0 = ''Final Score: 0 / 0 (NaN%)''"
  by (simp add: scoreLine_def percentage_empty js_number_str_def show_nat_0)

lemma generatePDF_score_line:
  "DrawText [scoreLine (calculateScore s) (length (questions s))] 130 65
     \<in> set (generatePDF sp ws d s)"
  by (simp add: generatePDF_def pdf_score_box_def Let_def)

text \<open>
  C10. The percentage of the report's score line is
  \<open>Math.round((score/total)*100)\<close>, computed in double arithmetic on the score and
  the number of questions with no test of the divisor, and every report carries it in
  the line \<open>Final Score: <score> / <total> (<percentage>%)\<close>. It is a number exactly
  when the total is not 0: \<open>0/0\<close> gives \<open>NaN\<close> and a positive score over 0 gives
  \<open>Infinity\<close>. For a positive total it is 100 when all answers are right and 0 when
  none is; 23 of 40 give the double \<open>57.49999999999999\<close> and so 57, although the exact
  quotient is 57.5; 1 of 8 gives exactly 12.5 and so 13.
  \<open>generateQuiz\<close> installs whatever list was parsed, the empty one included, and starts
  the quiz. With the empty list no answer button exists, 601 runs of the timer effect
  complete the session, and the completed session with no questions is reachable. There
  the score and the total are both 0, the percentage is \<open>NaN\<close>, and the report's score
  line reads \<open>Final Score: 0 / 0 (NaN%)\<close>.
\<close>

theorem empty_quiz_report_percentage:
  "percentage score total_n =
     Math_round (js_times (js_divide (js_of_nat score) (js_of_nat total_n)) (js_of_nat 100))
   \<and> DrawText [''Final Score: '' @ show_nat (calculateScore s) @ '' / '' @
                show_nat (length (questions s)) @ '' ('' @
                js_number_str (percentage (calculateScore s) (length (questions s))) @ ''%)'']
         130 65
       \<in> set (generatePDF splitTextToSize isWhiteSpace date s)
   \<and> (\<exists>k. percentage score total_n = Finite k) = (total_n \<noteq> 0)
   \<and> percentage score 0 \<noteq> Finite k
   \<and> percentage 0 0 = NaN
   \<and> percentage 3 0 = PosInfinity
   \<and> percentage total_n total_n = (if total_n = 0 then NaN else Finite 100)
   \<and> percentage 0 total_n = (if total_n = 0 then NaN else Finite 0)
   \<and> js_divide (js_of_nat 23) (js_of_nat 40) = Dbl 5179139571476070 (- 53)
   \<and> js_times (Dbl 5179139571476070 (- 53)) (js_of_nat 100) = Dbl 8092405580431359 (- 47)
   \<and> percentage 23 40 = Finite 57
   \<and> percentage 7 10 = Finite 70
   \<and> percentage 1 3 = Finite 33
   \<and> percentage 2 3 = Finite 67
   \<and> percentage 1 8 = Finite 13
   \<and> questions (generateQuiz s (Parsed qs)) = qs
   \<and> step (generateQuiz s (Parsed [])) = Quiz
   \<and> run initial_state
       ([SetName ''A B'', SetRank ''Officer'', SetVessel ''MV X'', Submit, Generated (Parsed [])]
        @ replicate 601 Tick)
     = Some (example_session Results [] 0 [] 0)
   \<and> reachable (example_session Results [] 0 [] 0)
   \<and> percentage (calculateScore (example_session Results [] 0 [] 0))
        (length (questions (example_session Results [] 0 [] 0))) = NaN
   \<and> DrawText [''Final Score: 0 / 0 (NaN%)''] 130 65
       \<in> set (generatePDF splitTextToSize isWhiteSpace date (example_session Results [] 0 [] 0))"
proof -
  have f: "percentage score total_n =
     Math_round (js_times (js_divide (js_of_nat score) (js_of_nat total_n)) (js_of_nat 100))"
    by (simp only: percentage_def)
  have l: "DrawText [''Final Score: '' @ show_nat (calculateScore s) @ '' / '' @
                show_nat (length (questions s)) @ '' ('' @
                js_number_str (percentage (calculateScore s) (length (questions s))) @ ''%)'']
         130 65
       \<in> set (generatePDF splitTextToSize isWhiteSpace date s)"
    using generatePDF_score_line [of s splitTextToSize isWhiteSpace date]
    by (simp only: scoreLine_def)
  have g: "questions (generateQuiz s (Parsed qs)) = qs \<and> step (generateQuiz s (Parsed [])) = Quiz"
    by (simp add: generateQuiz_def)
  have r: "reachable (example_session Results [] 0 [] 0)"
    using run_reachable [OF reachable_initial run_example_expired] .
  have sc: "calculateScore (example_session Results [] 0 [] 0) = 0"
    by (simp add: calculateScore_def example_session_def)
  have len: "length (questions (example_session Results [] 0 [] 0)) = 0"
    by (simp add: example_session_def)
  have p: "percentage (calculateScore (example_session Results [] 0 [] 0))
        (length (questions (example_session Results [] 0 [] 0))) = NaN"
    by (simp only: sc len percentage_empty)
  have d: "DrawText [''Final Score: 0 / 0 (NaN%)''] 130 65
       \<in> set (generatePDF splitTextToSize isWhiteSpace date (example_session Results [] 0 [] 0))"
    using generatePDF_score_line [of "example_session Results [] 0 [] 0" splitTextToSize
        isWhiteSpace date]
    by (simp only: sc len scoreLine_empty)
  show ?thesis
    by (intro conjI f l percentage_numeric percentage_zero_total percentage_empty percentage_3_0
        percentage_all percentage_none divide_23_40 times_23_40 percentage_23_40 percentage_7_10
        percentage_1_3 percentage_2_3 percentage_1_8 g [THEN conjunct1] g [THEN conjunct2]
        run_example_expired r p d)
qed

section \<open>The verdict\<close>

lemma review_block_column:
  "DrawText t x y \<in> set (fst (review_block sp as i q y0)) \<Longrightarrow> x = 15 \<or> x = 20"
  by (auto simp: review_block_def Let_def split: if_splits)

lemma review_blocks_column:
  "DrawText t x y \<in> set (concat (review_blocks sp as i qs y0)) \<Longrightarrow> x = 15 \<or> x = 20"
proof (induction qs arbitrary: i y0)
  case Nil
  then show ?case by simp
next
  case (Cons q qs)
  obtain ops y1 where rb: "review_block sp as i q y0 = (ops, y1)"
    by (cases "review_block sp as i q y0")
  from Cons.prems rb have "DrawText t x y \<in> set ops
      \<or> DrawText t x y \<in> set (concat (review_blocks sp as (i + 1) qs y1))"
    by simp
  then show ?case
  proof
    assume "DrawText t x y \<in> set ops"
    then have "DrawText t x y \<in> set (fst (review_block sp as i q y0))"
      by (simp add: rb)
    then show ?thesis by (rule review_block_column)
  next
    assume "DrawText t x y \<in> set (concat (review_blocks sp as (i + 1) qs y1))"
    then show ?thesis by (rule Cons.IH)
  qed
qed

lemma pdf_review_column:
  "DrawText t x y \<in> set (pdf_review sp s) \<Longrightarrow> x = 15 \<or> x = 20"
  using review_blocks_column [of t x y sp "answers s" 0 "questions s" 110]
  by (auto simp: pdf_review_def)

lemma pdf_footer_no_text: "DrawText t x y \<notin> set (pdf_footer n)"
  by (auto simp: pdf_footer_def)

lemma pdf_header_column:
  "DrawText t x y \<in> set (pdf_header d s) \<Longrightarrow> x = 15 \<or> x = 25 \<or> x = 55"
  by (auto simp: pdf_header_def)

lemma generatePDF_score_column:
  "(DrawText t 130 y \<in> set (generatePDF sp ws d s)) = (DrawText t 130 y \<in> set (pdf_score_box s))"
  using pdf_header_column [of t 130 y d s] pdf_review_column [of t 130 y sp s]
    pdf_footer_no_text [of t 130 y]
  by (auto simp: generatePDF_def Let_def)

lemma pdf_verdict_line:
  "(DrawText [v] 130 75 \<in> set (pdf_score_box s)) =
     (v = (if 7 \<le> calculateScore s then ''RESULT: PASS'' else ''RESULT: FAIL''))"
  by (auto simp: pdf_score_box_def Let_def)

lemma calculateScore_six:
  "calculateScore (example_session Results (replicate 10 example_question) 9
     [0, 0, 0, 0, 0, 0, 1, 1, 1, 1] 0) = 6"
  by (simp add: calculateScore_def example_session_def example_question_def js_index_def
      eval_nat_numeral)

lemma calculateScore_seven:
  "calculateScore (example_session Results (replicate 10 example_question) 9
     [0, 0, 0, 0, 0, 0, 0, 1, 1, 1] 0) = 7"
  by (simp add: calculateScore_def example_session_def example_question_def js_index_def
      eval_nat_numeral)

lemma calculateScore_seven_of_twenty:
  "calculateScore (example_session Results (replicate 20 example_question) 7
     [0, 0, 0, 0, 0, 0, 0] 0) = 7"
  by (simp add: calculateScore_def example_session_def example_question_def js_index_def
      eval_nat_numeral)

lemma calculateScore_six_of_six:
  "calculateScore (example_session Results (replicate 6 example_question) 5
     [0, 0, 0, 0, 0, 0] 600) = 6"
  by (simp add: calculateScore_def example_session_def example_question_def js_index_def
      eval_nat_numeral)

text \<open>
  C5. The verdict of the results screen is true exactly when the score is at least 7,
  and the report carries the line \<open>RESULT: PASS\<close> exactly when the score is at least 7
  and the line \<open>RESULT: FAIL\<close> exactly when it is below 7. The number of questions has
  no part in it: 6 hits out of 10 fail and 7 out of 10 pass, on the screen and in the
  report, 7 hits out of 20 pass and 6 out of 6 fail.
\<close>

theorem pass_threshold_seven:
  "rv_passed (resultsView s) = (7 \<le> calculateScore s)
   \<and> rv_label (resultsView s) =
       (if 7 \<le> calculateScore s then ''COMPETENT'' else ''NOT YET COMPETENT'')
   \<and> (DrawText [''RESULT: PASS''] 130 75 \<in> set (generatePDF splitTextToSize isWhiteSpace date s))
       = (7 \<le> calculateScore s)
   \<and> (DrawText [''RESULT: FAIL''] 130 75 \<in> set (generatePDF splitTextToSize isWhiteSpace date s))
       = (calculateScore s < 7)
   \<and> \<not> rv_passed (resultsView (example_session Results (replicate 10 example_question) 9
          [0, 0, 0, 0, 0, 0, 1, 1, 1, 1] 0))
   \<and> DrawText [''RESULT: FAIL''] 130 75 \<in> set (generatePDF splitTextToSize isWhiteSpace date
          (example_session Results (replicate 10 example_question) 9
             [0, 0, 0, 0, 0, 0, 1, 1, 1, 1] 0))
   \<and> rv_passed (resultsView (example_session Results (replicate 10 example_question) 9
          [0, 0, 0, 0, 0, 0, 0, 1, 1, 1] 0))
   \<and> DrawText [''RESULT: PASS''] 130 75 \<in> set (generatePDF splitTextToSize isWhiteSpace date
          (example_session Results (replicate 10 example_question) 9
             [0, 0, 0, 0, 0, 0, 0, 1, 1, 1] 0))
   \<and> rv_passed (resultsView (example_session Results (replicate 20 example_question) 7
          [0, 0, 0, 0, 0, 0, 0] 0))
   \<and> \<not> rv_passed (resultsView (example_session Results (replicate 6 example_question) 5
          [0, 0, 0, 0, 0, 0] 600))"
proof -
  have g: "rv_passed (resultsView s) = (7 \<le> calculateScore s)" for s
    by (simp add: resultsView_def Let_def)
  have l: "rv_label (resultsView s) =
       (if 7 \<le> calculateScore s then ''COMPETENT'' else ''NOT YET COMPETENT'')"
    by (simp add: resultsView_def Let_def)
  have p: "(DrawText [''RESULT: PASS''] 130 75 \<in> set (generatePDF splitTextToSize isWhiteSpace date s))
       = (7 \<le> calculateScore s)" for s
    by (simp add: generatePDF_score_column pdf_verdict_line)
  have f: "(DrawText [''RESULT: FAIL''] 130 75 \<in> set (generatePDF splitTextToSize isWhiteSpace date s))
       = (calculateScore s < 7)" for s
    by (auto simp: generatePDF_score_column pdf_verdict_line)
  show ?thesis
    unfolding g p f l
    by (simp add: calculateScore_six calculateScore_seven calculateScore_seven_of_twenty
        calculateScore_six_of_six)
qed

section \<open>The review blocks of the report\<close>

lemma texts_of_append: "texts_of (xs @ ys) = texts_of xs @ texts_of ys"
  by (induction xs rule: texts_of.induct) simp_all

lemma texts_of_review_block:
  "texts_of (fst (review_block sp as i q y0)) =
     [sp (''Q'' @ show_nat (i + 1) @ '': '' @ question q) 180,
      [if i < length as \<and> as ! i = correctAnswerIndex q
       then ''Result: CORRECT'' else ''Result: INCORRECT'']] @
     (if i < length as \<and> as ! i = correctAnswerIndex q then []
      else [[''Your Answer: '' @
             (if i < length as then js_str (js_index_int (options q) (as ! i))
              else ''No Answer (Time expired)'')]]) @
     [[''Correct Answer: '' @ js_str (js_index_int (options q) (correctAnswerIndex q))],
      sp (''Note: '' @ explanation q) 170]"
  by (simp add: review_block_def Let_def js_index_def texts_of_append)

lemma review_blocks_length: "length (review_blocks sp as i qs y0) = length qs"
  by (induction qs arbitrary: i y0) (auto split: prod.splits)

lemma review_blocks_nth:
  "n < length qs \<Longrightarrow>
   \<exists>y. review_blocks sp as i qs y0 ! n = fst (review_block sp as (i + n) (qs ! n) y)"
proof (induction qs arbitrary: i y0 n)
  case Nil
  then show ?case by simp
next
  case (Cons q qs)
  obtain ops y1 where rb: "review_block sp as i q y0 = (ops, y1)"
    by (cases "review_block sp as i q y0")
  show ?case
  proof (cases n)
    case 0
    have "review_blocks sp as i (q # qs) y0 ! 0 = fst (review_block sp as (i + 0) ((q # qs) ! 0) y0)"
      by (simp add: rb)
    then show ?thesis using 0 by blast
  next
    case (Suc m)
    with Cons.prems have "m < length qs" by simp
    then obtain y where "review_blocks sp as (i + 1) qs y1 ! m
        = fst (review_block sp as (i + 1 + m) (qs ! m) y)"
      using Cons.IH by blast
    then have "review_blocks sp as i (q # qs) y0 ! n
        = fst (review_block sp as (i + n) ((q # qs) ! n) y)"
      by (simp add: rb Suc)
    then show ?thesis by blast
  qed
qed

lemma show_nat_1: "show_nat (Suc 0) = ''1''"
  by (subst show_nat.simps) (simp add: digit_char_def)

lemma show_nat_2: "show_nat (Suc (Suc 0)) = ''2''"
  by (subst show_nat.simps) (simp add: digit_char_def)

text \<open>
  C3, as the specification states it, fails on the marker: for a question without an
  answer the report prints \<open>No Answer (Time expired)\<close>, and no text of the review
  contains the specification's \<open>No Answer (time expired)\<close>. The example has two
  questions, the first answered correctly and the second not answered, and no wrapping.
\<close>

theorem review_block_marker_counterexample:
  "texts_of (concat (review_blocks (\<lambda>t w. [t]) [0] 0 [example_question, example_question] 110)) =
     [[''Q1: Which side?''], [''Result: CORRECT''], [''Correct Answer: port''], [''Note: Rule 14''],
      [''Q2: Which side?''], [''Result: INCORRECT''], [''Your Answer: No Answer (Time expired)''],
      [''Correct Answer: port''], [''Note: Rule 14'']]
   \<and> \<not> list_ex (list_ex (contains_text spec_no_answer_marker))
        (texts_of (concat (review_blocks (\<lambda>t w. [t]) [0] 0 [example_question, example_question] 110)))"
proof -
  have e: "texts_of (concat (review_blocks (\<lambda>t w. [t]) [0] 0 [example_question, example_question] 110)) =
     [[''Q1: Which side?''], [''Result: CORRECT''], [''Correct Answer: port''], [''Note: Rule 14''],
      [''Q2: Which side?''], [''Result: INCORRECT''], [''Your Answer: No Answer (Time expired)''],
      [''Correct Answer: port''], [''Note: Rule 14'']]"
    by (simp add: review_block_def Let_def js_index_def js_index_int_def js_str_def
        example_question_def show_nat_1 show_nat_2)
  show ?thesis
    unfolding e by (simp add: spec_no_answer_marker_def)
qed

text \<open>
  C3, amended. There is one review block per question, in the order of the questions,
  and the block of question \<open>i\<close> puts these texts on the page, in this order: the
  wrapped \<open>Q<i+1>: <question text>\<close>; the verdict \<open>Result: CORRECT\<close> when an answer
  exists at \<open>i\<close> and equals the correct index, \<open>Result: INCORRECT\<close> otherwise (so also
  when there is no answer); only when the verdict is \<open>INCORRECT\<close>, a line
  \<open>Your Answer:\<close> with the text of the selected option, or with the marker
  \<open>No Answer (Time expired)\<close> when no answer exists at \<open>i\<close>; the line
  \<open>Correct Answer:\<close> with the text of the correct option (which, when the verdict is
  \<open>CORRECT\<close>, is also the selected one); and the wrapped \<open>Note: <explanation>\<close>. The
  option texts are those of the question whenever the index lies within its options.
\<close>

theorem review_block_contents:
  fixes s :: app_state and i :: nat and sp :: "string \<Rightarrow> int \<Rightarrow> string list"
  defines "q \<equiv> questions s ! i"
    and "blocks \<equiv> review_blocks sp (answers s) 0 (questions s) 110"
  defines "isCorrect \<equiv> i < length (answers s) \<and> answers s ! i = correctAnswerIndex q"
  assumes "i < length (questions s)"
  shows "length blocks = length (questions s)
   \<and> pdf_review sp s =
       [SetTextColor 0 51 102, SetFontSize 14, SetFont ''helvetica'' ''bold'',
        DrawText [''Detailed Assessment:''] 15 100] @ concat blocks
   \<and> texts_of (blocks ! i) =
       [sp (''Q'' @ show_nat (i + 1) @ '': '' @ question q) 180,
        [if isCorrect then ''Result: CORRECT'' else ''Result: INCORRECT'']] @
       (if isCorrect then []
        else [[''Your Answer: '' @
               (if i < length (answers s) then js_str (js_index_int (options q) (answers s ! i))
                else ''No Answer (Time expired)'')]]) @
       [[''Correct Answer: '' @ js_str (js_index_int (options q) (correctAnswerIndex q))],
        sp (''Note: '' @ explanation q) 170]
   \<and> (0 \<le> correctAnswerIndex q \<and> correctAnswerIndex q < int (length (options q)) \<longrightarrow>
        js_str (js_index_int (options q) (correctAnswerIndex q)) = options q ! nat (correctAnswerIndex q))
   \<and> (i < length (answers s) \<and> 0 \<le> answers s ! i \<and> answers s ! i < int (length (options q)) \<longrightarrow>
        js_str (js_index_int (options q) (answers s ! i)) = options q ! nat (answers s ! i))"
proof -
  obtain y where "blocks ! i = fst (review_block sp (answers s) (0 + i) (questions s ! i) y)"
    unfolding blocks_def using review_blocks_nth [OF assms(4)] by blast
  then have "texts_of (blocks ! i) = texts_of (fst (review_block sp (answers s) i q y))"
    by (simp add: q_def)
  then show ?thesis
    unfolding isCorrect_def
    by (simp add: texts_of_review_block)
       (simp add: blocks_def review_blocks_length pdf_review_def js_str_def js_index_int_def)
qed

theorem review_block_contents_witness:
  "texts_of (review_blocks (\<lambda>t w. [t]) [1] 0 [example_question, example_question] 110 ! 0) =
     [[''Q1: Which side?''], [''Result: INCORRECT''], [''Your Answer: starboard''],
      [''Correct Answer: port''], [''Note: Rule 14'']]
   \<and> texts_of (review_blocks (\<lambda>t w. [t]) [1] 0 [example_question, example_question] 110 ! 1) =
     [[''Q2: Which side?''], [''Result: INCORRECT''], [''Your Answer: No Answer (Time expired)''],
      [''Correct Answer: port''], [''Note: Rule 14'']]
   \<and> texts_of (review_blocks (\<lambda>t w. [t]) [0] 0 [example_question] 110 ! 0) =
     [[''Q1: Which side?''], [''Result: CORRECT''],
      [''Correct Answer: port''], [''Note: Rule 14'']]
   \<and> length (review_blocks (\<lambda>t w. [t]) [1] 0 [example_question, example_question] 110) = 2"
  using review_block_contents
      [where s = "example_session Results [example_question, example_question] 1 [1] 0"
         and i = 0 and sp = "\<lambda>t w. [t]"]
    review_block_contents
      [where s = "example_session Results [example_question, example_question] 1 [1] 0"
         and i = 1 and sp = "\<lambda>t w. [t]"]
    review_block_contents
      [where s = "example_session Results [example_question] 0 [0] 600"
         and i = 0 and sp = "\<lambda>t w. [t]"]
  by (simp add: example_session_def example_question_def js_str_def js_index_int_def
      show_nat_1 show_nat_2 del: review_blocks.simps)

end
